theory Spec2Isabelle
  imports Main "HOL-Library.Word"
begin

section \<open>JavaScript values, requests and responses\<close>

text \<open>
  The service is an Express application (\<^verbatim>\<open>src/index.js\<close>, and the older single-route
  server \<^verbatim>\<open>src/main.js\<close>). Each route handler reads \<^verbatim>\<open>req.query\<close>, calls into
  \<^verbatim>\<open>ethers\<close>, \<^verbatim>\<open>bip39\<close> or \<^verbatim>\<open>@mysten/sui\<close>, and answers with
  \<^verbatim>\<open>res.status(n).json(obj)\<close>.

  A query value is what Express hands over: a string, or (for a repeated or bracketed
  parameter) an array or an object; an absent parameter reads as \<^verbatim>\<open>undefined\<close>.
  A character of a \<open>string\<close> stands for one UTF-16 code unit of the JavaScript string.
\<close>

datatype jsval =
    JUndefined
  | JString string
  | JBool bool
  | JArray "jsval list"
  | JObject "(string \<times> jsval) list"

type_synonym query = "string \<rightharpoonup> jsval"

text \<open>\<^verbatim>\<open>const { key } = req.query\<close>: a missing property is \<^verbatim>\<open>undefined\<close>.\<close>

definition param :: "query \<Rightarrow> string \<Rightarrow> jsval" where
  "param q name = (case q name of None \<Rightarrow> JUndefined | Some v \<Rightarrow> v)"

text \<open>JavaScript truthiness, as \<^verbatim>\<open>!key\<close> tests it: the empty string is falsy, every array
  and object is truthy.\<close>

fun truthy :: "jsval \<Rightarrow> bool" where
  "truthy JUndefined = False"
| "truthy (JString s) = (s \<noteq> [])"
| "truthy (JBool b) = b"
| "truthy (JArray xs) = True"
| "truthy (JObject kvs) = True"

text \<open>Reading a property of a JSON body (\<^verbatim>\<open>body.data.address\<close>).\<close>

fun jget :: "jsval \<Rightarrow> string \<Rightarrow> jsval" where
  "jget (JObject kvs) name = (case map_of kvs name of None \<Rightarrow> JUndefined | Some v \<Rightarrow> v)"
| "jget v name = JUndefined"

record response =
  status :: nat
  body :: jsval

text \<open>A thrown value; \<open>err_message\<close> is its \<^verbatim>\<open>.message\<close>.\<close>

datatype js_error = JsError (err_message: string)

section \<open>String and buffer primitives of the runtime\<close>

type_synonym byte = "8 word"

text \<open>\<^verbatim>\<open>s.startsWith(p)\<close>.\<close>

definition startsWith :: "string \<Rightarrow> string \<Rightarrow> bool" where
  "startsWith s p = (take (length p) s = p)"

text \<open>\<^verbatim>\<open>s.replace(pat, rep)\<close> with a string pattern: the first occurrence of \<open>pat\<close>,
  wherever it stands, is replaced (the replacement used by the source is the empty string,
  which has no \<^verbatim>\<open>$\<close> patterns).\<close>

fun str_replace :: "string \<Rightarrow> string \<Rightarrow> string \<Rightarrow> string" where
  "str_replace [] pat rep = (if pat = [] then rep else [])"
| "str_replace (c # cs) pat rep =
     (if take (length pat) (c # cs) = pat then rep @ drop (length pat) (c # cs)
      else c # str_replace cs pat rep)"

text \<open>\<^verbatim>\<open>s.includes(p)\<close>: does \<open>p\<close> occur in \<open>s\<close>.\<close>

fun str_includes :: "string \<Rightarrow> string \<Rightarrow> bool" where
  "str_includes [] p = (p = [])"
| "str_includes (c # cs) p = (startsWith (c # cs) p \<or> str_includes cs p)"

text \<open>The removal of a leading \<open>0x\<close> and of nothing else, which is what the comment of
  \<^verbatim>\<open>/sui-key-to-address\<close> announces (\<^verbatim>\<open>Remove 0x prefix if present\<close>). The handler itself
  calls \<open>str_replace\<close>; this function is used in statements only.\<close>

definition strip_0x_prefix :: "string \<Rightarrow> string" where
  "strip_0x_prefix pk = (if startsWith pk ''0x'' then drop 2 pk else pk)"

text \<open>Node's hex decoding (\<^verbatim>\<open>Buffer.from(s, 'hex')\<close>): pairs of hex digits, upper or
  lower case, are decoded up to the first pair that is not hex; an odd last character is
  dropped.\<close>

definition unhex :: "char \<Rightarrow> nat option" where
  "unhex c =
     (let n = (of_char c :: nat) in
      if 48 \<le> n \<and> n \<le> 57 then Some (n - 48)
      else if 97 \<le> n \<and> n \<le> 102 then Some (n - 87)
      else if 65 \<le> n \<and> n \<le> 70 then Some (n - 55)
      else None)"

fun hex_decode :: "string \<Rightarrow> byte list" where
  "hex_decode (a # b # rest) =
     (case unhex a of
        None \<Rightarrow> []
      | Some x \<Rightarrow> (case unhex b of
          None \<Rightarrow> []
        | Some y \<Rightarrow> of_nat (16 * x + y) # hex_decode rest))"
| "hex_decode [a] = []"
| "hex_decode [] = []"

text \<open>\<^verbatim>\<open>buf.toString('hex')\<close>: two lower-case hex digits per byte.\<close>

definition hex_digit :: "nat \<Rightarrow> char" where
  "hex_digit n = ''0123456789abcdef'' ! (n mod 16)"

definition hex_byte :: "byte \<Rightarrow> string" where
  "hex_byte b = [hex_digit (unat b div 16), hex_digit (unat b mod 16)]"

definition to_hex :: "byte list \<Rightarrow> string" where
  "to_hex bs = concat (map hex_byte bs)"

text \<open>\<^verbatim>\<open>Buffer.from(str)\<close> encodes a string as UTF-8: one byte for a code unit below 128,
  two bytes for the others a \<open>char\<close> can stand for.\<close>

definition utf8_char :: "char \<Rightarrow> byte list" where
  "utf8_char c =
     (let n = (of_char c :: nat) in
      if n < 128 then [of_nat n] else [of_nat (192 + n div 64), of_nat (128 + n mod 64)])"

definition utf8 :: "string \<Rightarrow> byte list" where
  "utf8 str = concat (map utf8_char str)"

text \<open>
  What \<^verbatim>\<open>keypair.getSecretKey()\<close> hands back is the library's choice: a byte array
  (\<^verbatim>\<open>Uint8Array\<close>), as the handler's variable \<^verbatim>\<open>privateKeyBytes\<close> expects, or an encoded
  string. Both have \<^verbatim>\<open>slice\<close>, and \<^verbatim>\<open>Buffer.from\<close> takes both.
\<close>

datatype secret = SecretBytes "byte list" | SecretString string

text \<open>\<^verbatim>\<open>x.slice(0, n)\<close>.\<close>

fun slice0 :: "secret \<Rightarrow> nat \<Rightarrow> secret" where
  "slice0 (SecretBytes bs) n = SecretBytes (take n bs)"
| "slice0 (SecretString str) n = SecretString (take n str)"

text \<open>\<^verbatim>\<open>Buffer.from(x)\<close>.\<close>

fun Buffer_from :: "secret \<Rightarrow> byte list" where
  "Buffer_from (SecretBytes bs) = bs"
| "Buffer_from (SecretString str) = utf8 str"

section \<open>The capability provider\<close>

text \<open>
  The cryptographic libraries are not part of the repository; the handlers are modelled
  over a record of the library operations they call. An operation returns \<open>Inl e\<close> when
  the library throws \<open>e\<close>. The operations that draw randomness read and advance a world
  state \<open>'w\<close>; \<open>'o\<close> is the type of the opaque library objects (a \<^verbatim>\<open>Mnemonic\<close>, an
  \<^verbatim>\<open>Ed25519Keypair\<close>, its \<^verbatim>\<open>PublicKey\<close>).
\<close>

text \<open>The properties of an \<^verbatim>\<open>ethers\<close> wallet or HD node that the handlers read. What
  \<^verbatim>\<open>wallet.publicKey\<close> reads is left to the library object: an HD node has the property, a
  plain \<^verbatim>\<open>Wallet\<close> of ethers v6 has none and the read gives \<^verbatim>\<open>undefined\<close>, which
  \<^verbatim>\<open>res.json\<close> leaves out of the body.\<close>

record wallet =
  wallet_address :: string
  wallet_privateKey :: string
  wallet_publicKey :: jsval

record ('w, 'o) caps =
  ethers_Wallet :: "jsval \<Rightarrow> js_error + wallet"
  wallet_signMessage :: "wallet \<Rightarrow> jsval \<Rightarrow> js_error + string"
  ethers_verifyMessage :: "jsval \<Rightarrow> jsval \<Rightarrow> js_error + string"
  SigningKey_computePublicKey :: "string \<Rightarrow> bool \<Rightarrow> js_error + string"
  bip39_generateMnemonic :: "'w \<Rightarrow> (js_error + string) \<times> 'w"
  Mnemonic_fromPhrase :: "string \<Rightarrow> js_error + 'o"
  HDNodeWallet_fromMnemonic :: "'o \<Rightarrow> js_error + wallet"
  hdWallet_derivePath :: "wallet \<Rightarrow> string \<Rightarrow> js_error + wallet"
  Wallet_createRandom :: "'w \<Rightarrow> (js_error + wallet) \<times> 'w"
  Ed25519Keypair_new :: "'w \<Rightarrow> (js_error + 'o) \<times> 'w"
  Ed25519Keypair_fromSecretKey :: "byte list \<Rightarrow> js_error + 'o"
  keypair_getPublicKey :: "'o \<Rightarrow> js_error + 'o"
  keypair_getSecretKey :: "'o \<Rightarrow> js_error + secret"
  publicKey_toSuiAddress :: "'o \<Rightarrow> js_error + string"
  publicKey_toBase64 :: "'o \<Rightarrow> js_error + string"

text \<open>One entry per library call, with its arguments: the trace of a request.\<close>

datatype 'o cap_call =
    Call_Wallet jsval
  | Call_signMessage wallet jsval
  | Call_verifyMessage jsval jsval
  | Call_computePublicKey string bool
  | Call_generateMnemonic
  | Call_fromPhrase string
  | Call_fromMnemonic 'o
  | Call_derivePath wallet string
  | Call_createRandom
  | Call_Ed25519Keypair_new
  | Call_fromSecretKey "byte list"
  | Call_getPublicKey 'o
  | Call_getSecretKey 'o
  | Call_toSuiAddress 'o
  | Call_toBase64 'o

text \<open>What a request can change: the world the random operations draw from, the trace
  of library calls, and the server's console (\<^verbatim>\<open>console.error(label, error)\<close>).\<close>

record ('w, 'o) server =
  world :: 'w
  calls :: "'o cap_call list"
  console :: "(string \<times> js_error) list"

section \<open>Control flow: exceptions and \<^verbatim>\<open>try\<close>/\<^verbatim>\<open>catch\<close>\<close>

type_synonym ('w, 'o, 'a) comp = "('w, 'o) server \<Rightarrow> (js_error + 'a) \<times> ('w, 'o) server"

definition ret :: "'a \<Rightarrow> ('w, 'o, 'a) comp" where
  "ret x s = (Inr x, s)"

definition throw :: "js_error \<Rightarrow> ('w, 'o, 'a) comp" where
  "throw e s = (Inl e, s)"

definition bnd :: "('w, 'o, 'a) comp \<Rightarrow> ('a \<Rightarrow> ('w, 'o, 'b) comp) \<Rightarrow> ('w, 'o, 'b) comp" where
  "bnd m f s = (case m s of (Inl e, s') \<Rightarrow> (Inl e, s') | (Inr x, s') \<Rightarrow> f x s')"

text \<open>A deterministic library call, and one that draws from the world; both are traced.\<close>

definition call :: "'o cap_call \<Rightarrow> js_error + 'a \<Rightarrow> ('w, 'o, 'a) comp" where
  "call ev r s = (r, s\<lparr>calls := calls s @ [ev]\<rparr>)"

definition call_random ::
  "'o cap_call \<Rightarrow> ('w \<Rightarrow> (js_error + 'a) \<times> 'w) \<Rightarrow> ('w, 'o, 'a) comp" where
  "call_random ev f s =
     (case f (world s) of (r, w') \<Rightarrow> (r, s\<lparr>world := w', calls := calls s @ [ev]\<rparr>))"

definition console_error :: "string \<Rightarrow> js_error \<Rightarrow> ('w, 'o) server \<Rightarrow> ('w, 'o) server" where
  "console_error label e s = s\<lparr>console := console s @ [(label, e)]\<rparr>"

definition try_catch ::
  "('w, 'o, 'a) comp \<Rightarrow> (js_error \<Rightarrow> ('w, 'o) server \<Rightarrow> 'a \<times> ('w, 'o) server)
     \<Rightarrow> ('w, 'o) server \<Rightarrow> 'a \<times> ('w, 'o) server" where
  "try_catch m h s = (case m s of (Inl e, s') \<Rightarrow> h e s' | (Inr x, s') \<Rightarrow> (x, s'))"

text \<open>\<^verbatim>\<open>res.status(n).json({ error: msg, success: false })\<close>.\<close>

definition error_response :: "nat \<Rightarrow> string \<Rightarrow> response" where
  "error_response n msg =
     \<lparr>status = n, body = JObject [(''error'', JString msg), (''success'', JBool False)]\<rparr>"

text \<open>\<^verbatim>\<open>res.status(200).json({ success: true, data: {...} })\<close>.\<close>

definition success_response :: "(string \<times> jsval) list \<Rightarrow> response" where
  "success_response d =
     \<lparr>status = 200, body = JObject [(''success'', JBool True), (''data'', JObject d)]\<rparr>"

text \<open>The \<^verbatim>\<open>catch\<close> block shared in shape by every handler of \<^verbatim>\<open>index.js\<close>: log the
  error with a label, answer 500 with a fixed message.\<close>

definition log_and_500 ::
  "string \<Rightarrow> string \<Rightarrow> js_error \<Rightarrow> ('w, 'o) server \<Rightarrow> response \<times> ('w, 'o) server" where
  "log_and_500 label msg e s = (error_response 500 msg, console_error label e s)"

section \<open>The handlers of \<^verbatim>\<open>index.js\<close>\<close>

subsection \<open>\<^verbatim>\<open>GET /sign\<close>\<close>

definition sign_try :: "('w, 'o) caps \<Rightarrow> query \<Rightarrow> ('w, 'o, response) comp" where
  "sign_try C q =
     (let key = param q ''key''; message = param q ''message'' in
      if \<not> truthy key \<or> \<not> truthy message
      then ret (error_response 400 ''Private key and message are required'')
      else
        bnd (call (Call_Wallet key) (ethers_Wallet C key)) (\<lambda>wallet.
        bnd (call (Call_signMessage wallet message) (wallet_signMessage C wallet message))
          (\<lambda>signature.
        ret (success_response
          [(''address'', JString (wallet_address wallet)),
           (''message'', message),
           (''signature'', JString signature)]))))"

definition sign_handler ::
  "('w, 'o) caps \<Rightarrow> query \<Rightarrow> ('w, 'o) server \<Rightarrow> response \<times> ('w, 'o) server" where
  "sign_handler C q =
     try_catch (sign_try C q)
       (log_and_500 ''Error signing message:''
          ''Error signing message. Please ensure the private key is valid.'')"

subsection \<open>\<^verbatim>\<open>GET /verify\<close>\<close>

definition verify_try :: "('w, 'o) caps \<Rightarrow> query \<Rightarrow> ('w, 'o, response) comp" where
  "verify_try C q =
     (let message = param q ''message''; signature = param q ''signature'' in
      if \<not> truthy message \<or> \<not> truthy signature
      then ret (error_response 400 ''Message and signature are required'')
      else
        bnd (call (Call_verifyMessage message signature)
               (ethers_verifyMessage C message signature)) (\<lambda>recoveredAddress.
        ret (success_response
          [(''recoveredAddress'', JString recoveredAddress),
           (''message'', message),
           (''isValid'', JBool True)])))"

definition verify_handler ::
  "('w, 'o) caps \<Rightarrow> query \<Rightarrow> ('w, 'o) server \<Rightarrow> response \<times> ('w, 'o) server" where
  "verify_handler C q =
     try_catch (verify_try C q)
       (log_and_500 ''Error verifying signature:'' ''Error verifying signature'')"

subsection \<open>\<^verbatim>\<open>GET /generate-eth\<close>\<close>

definition derivationPath :: string where
  "derivationPath = ''m/44'/60'/0'/0/0''"

definition generate_eth_try :: "('w, 'o) caps \<Rightarrow> ('w, 'o, response) comp" where
  "generate_eth_try C =
     bnd (call_random Call_generateMnemonic (bip39_generateMnemonic C)) (\<lambda>mnemonic.
     bnd (call (Call_fromPhrase mnemonic) (Mnemonic_fromPhrase C mnemonic)) (\<lambda>phrase.
     bnd (call (Call_fromMnemonic phrase) (HDNodeWallet_fromMnemonic C phrase)) (\<lambda>hdWallet.
     bnd (call (Call_derivePath hdWallet derivationPath)
            (hdWallet_derivePath C hdWallet derivationPath)) (\<lambda>wallet.
     ret (success_response
       [(''address'', JString (wallet_address wallet)),
        (''privateKey'', JString (wallet_privateKey wallet)),
        (''mnemonic'', JString mnemonic),
        (''publicKey'', wallet_publicKey wallet),
        (''derivationPath'', JString derivationPath)])))))"

text \<open>The inner \<^verbatim>\<open>try\<close> of the \<^verbatim>\<open>catch\<close> block: a second mnemonic and a random wallet.\<close>

definition generate_eth_fallback_try :: "('w, 'o) caps \<Rightarrow> ('w, 'o, response) comp" where
  "generate_eth_fallback_try C =
     bnd (call_random Call_generateMnemonic (bip39_generateMnemonic C)) (\<lambda>mnemonic.
     bnd (call_random Call_createRandom (Wallet_createRandom C)) (\<lambda>randomWallet.
     ret (success_response
       [(''address'', JString (wallet_address randomWallet)),
        (''privateKey'', JString (wallet_privateKey randomWallet)),
        (''mnemonic'', JString mnemonic),
        (''publicKey'', wallet_publicKey randomWallet),
        (''derivationPath'', JString ''random'')])))"

definition generate_eth_handler ::
  "('w, 'o) caps \<Rightarrow> query \<Rightarrow> ('w, 'o) server \<Rightarrow> response \<times> ('w, 'o) server" where
  "generate_eth_handler C q =
     try_catch (generate_eth_try C) (\<lambda>error s.
       try_catch (generate_eth_fallback_try C)
         (log_and_500 ''Error in fallback wallet generation:'' ''Error generating ETH wallet'')
         (console_error ''Error generating ETH wallet:'' error s))"

subsection \<open>\<^verbatim>\<open>GET /generate-sui\<close>\<close>

definition generate_sui_try :: "('w, 'o) caps \<Rightarrow> ('w, 'o, response) comp" where
  "generate_sui_try C =
     bnd (call_random Call_Ed25519Keypair_new (Ed25519Keypair_new C)) (\<lambda>keypair.
     bnd (call (Call_getPublicKey keypair) (keypair_getPublicKey C keypair)) (\<lambda>pk1.
     bnd (call (Call_toSuiAddress pk1) (publicKey_toSuiAddress C pk1)) (\<lambda>address.
     bnd (call (Call_getSecretKey keypair) (keypair_getSecretKey C keypair)) (\<lambda>privateKeyBytes.
     bnd (call (Call_getPublicKey keypair) (keypair_getPublicKey C keypair)) (\<lambda>pk2.
     bnd (call (Call_toBase64 pk2) (publicKey_toBase64 C pk2)) (\<lambda>publicKey.
     let privateKeyHex = to_hex (Buffer_from (slice0 privateKeyBytes 32)) in
     ret (success_response
       [(''address'', JString address),
        (''privateKey'', JString privateKeyHex),
        (''publicKey'', JString publicKey),
        (''keyType'', JString ''Ed25519'')])))))))"

definition generate_sui_handler ::
  "('w, 'o) caps \<Rightarrow> query \<Rightarrow> ('w, 'o) server \<Rightarrow> response \<times> ('w, 'o) server" where
  "generate_sui_handler C q =
     try_catch (generate_sui_try C)
       (log_and_500 ''Error generating SUI wallet:'' ''Error generating SUI wallet'')"

subsection \<open>\<^verbatim>\<open>GET /sui-key-to-address\<close>\<close>

text \<open>A truthy query value that is not a string has no callable \<^verbatim>\<open>replace\<close> (or
  \<^verbatim>\<open>startsWith\<close>): the call throws a \<^verbatim>\<open>TypeError\<close> inside the \<^verbatim>\<open>try\<close>.\<close>

definition sui_key_to_address_try :: "('w, 'o) caps \<Rightarrow> query \<Rightarrow> ('w, 'o, response) comp" where
  "sui_key_to_address_try C q =
     (let privateKey = param q ''privateKey'' in
      if \<not> truthy privateKey
      then ret (error_response 400 ''Private key is required'')
      else (case privateKey of
        JString pk \<Rightarrow>
          (let cleanPrivateKey = str_replace pk ''0x'' [] in
           if length cleanPrivateKey \<noteq> 64
           then ret (error_response 400
             ''Invalid private key length. Expected 64 hex characters for Ed25519.'')
           else
             (let privateKeyBytes = hex_decode cleanPrivateKey in
              bnd (call (Call_fromSecretKey privateKeyBytes)
                     (Ed25519Keypair_fromSecretKey C privateKeyBytes)) (\<lambda>keypair.
              bnd (call (Call_getPublicKey keypair) (keypair_getPublicKey C keypair)) (\<lambda>pk1.
              bnd (call (Call_toSuiAddress pk1) (publicKey_toSuiAddress C pk1)) (\<lambda>address.
              bnd (call (Call_getPublicKey keypair) (keypair_getPublicKey C keypair)) (\<lambda>pk2.
              bnd (call (Call_toBase64 pk2) (publicKey_toBase64 C pk2)) (\<lambda>publicKey.
              ret (success_response
                [(''address'', JString address),
                 (''publicKey'', JString publicKey),
                 (''privateKey'', JString cleanPrivateKey),
                 (''keyType'', JString ''Ed25519'')]))))))))
      | _ \<Rightarrow> throw (JsError ''privateKey.replace is not a function'')))"

definition sui_key_to_address_handler ::
  "('w, 'o) caps \<Rightarrow> query \<Rightarrow> ('w, 'o) server \<Rightarrow> response \<times> ('w, 'o) server" where
  "sui_key_to_address_handler C q =
     try_catch (sui_key_to_address_try C q)
       (log_and_500 ''Error converting SUI private key:''
          ''Error converting SUI private key. Please ensure the private key is valid.'')"

subsection \<open>\<^verbatim>\<open>GET /eth-key-to-wallet\<close>\<close>

definition eth_key_to_wallet_try :: "('w, 'o) caps \<Rightarrow> query \<Rightarrow> ('w, 'o, response) comp" where
  "eth_key_to_wallet_try C q =
     (let privateKey = param q ''privateKey'' in
      if \<not> truthy privateKey
      then ret (error_response 400 ''Private key is required'')
      else (case privateKey of
        JString pk \<Rightarrow>
          (let cleanPrivateKey = (if startsWith pk ''0x'' then pk else ''0x'' @ pk) in
           if length cleanPrivateKey \<noteq> 66
           then ret (error_response 400
             ''Invalid private key format. Expected 64 hex characters (with or without 0x prefix).'')
           else
             bnd (call (Call_Wallet (JString cleanPrivateKey))
                    (ethers_Wallet C (JString cleanPrivateKey))) (\<lambda>wallet.
             bnd (call (Call_computePublicKey cleanPrivateKey True)
                    (SigningKey_computePublicKey C cleanPrivateKey True)) (\<lambda>compressed.
             ret (success_response
               [(''address'', JString (wallet_address wallet)),
                (''privateKey'', JString cleanPrivateKey),
                (''publicKey'', wallet_publicKey wallet),
                (''compressedPublicKey'', JString compressed)]))))
      | _ \<Rightarrow> throw (JsError ''privateKey.startsWith is not a function'')))"

definition eth_key_to_wallet_handler ::
  "('w, 'o) caps \<Rightarrow> query \<Rightarrow> ('w, 'o) server \<Rightarrow> response \<times> ('w, 'o) server" where
  "eth_key_to_wallet_handler C q =
     try_catch (eth_key_to_wallet_try C q)
       (log_and_500 ''Error converting ETH private key:''
          ''Error converting ETH private key. Please ensure the private key is valid.'')"

section \<open>The handler of \<^verbatim>\<open>main.js\<close>\<close>

text \<open>The older server has one route, \<^verbatim>\<open>GET /sign\<close>. Its parameter check stands outside
  the \<^verbatim>\<open>try\<close>; its \<^verbatim>\<open>catch\<close> logs nothing and puts \<^verbatim>\<open>err.message\<close> into the body.\<close>

definition main_sign_try :: "('w, 'o) caps \<Rightarrow> jsval \<Rightarrow> jsval \<Rightarrow> ('w, 'o, response) comp" where
  "main_sign_try C key message =
     bnd (call (Call_Wallet key) (ethers_Wallet C key)) (\<lambda>wallet.
     bnd (call (Call_signMessage wallet message) (wallet_signMessage C wallet message))
       (\<lambda>signature.
     ret \<lparr>status = 200,
          body = JObject [(''address'', JString (wallet_address wallet)),
                          (''signature'', JString signature)]\<rparr>))"

definition main_sign_handler ::
  "('w, 'o) caps \<Rightarrow> query \<Rightarrow> ('w, 'o) server \<Rightarrow> response \<times> ('w, 'o) server" where
  "main_sign_handler C q s =
     (let key = param q ''key''; message = param q ''message'' in
      if \<not> truthy key \<or> \<not> truthy message
      then (\<lparr>status = 400, body = JObject [(''error'', JString ''Missing key or message'')]\<rparr>, s)
      else
        try_catch (main_sign_try C key message)
          (\<lambda>err s'.
             (\<lparr>status = 500,
               body = JObject [(''error'', JString ''Invalid key or signing error''),
                               (''details'', JString (err_message err))]\<rparr>, s'))
          s)"

section \<open>A concrete provider\<close>

text \<open>
  A small provider on which the handlers can be run: the world is a counter, a library
  object is a byte list. It stands in for the real libraries at concrete requests only; a
  private key is accepted when it is \<open>0x\<close> and 64 hex digits, a signature is the signer's
  address followed by the message.
\<close>

definition is_hex :: "string \<Rightarrow> bool" where
  "is_hex str = list_all (\<lambda>c. unhex c \<noteq> None) str"

definition example_wallet :: "string \<Rightarrow> wallet" where
  "example_wallet k =
     \<lparr>wallet_address = ''0x'' @ take 40 (drop 2 k),
      wallet_privateKey = k,
      wallet_publicKey = JString (''0x04'' @ drop 2 k)\<rparr>"

definition example_caps :: "(nat, byte list) caps" where
  "example_caps =
     \<lparr>ethers_Wallet = (\<lambda>key. case key of
          JString k \<Rightarrow>
            if length k = 66 \<and> startsWith k ''0x'' \<and> is_hex (drop 2 k)
            then Inr (example_wallet k) else Inl (JsError ''invalid private key'')
        | _ \<Rightarrow> Inl (JsError ''invalid private key'')),
      wallet_signMessage = (\<lambda>w message. case message of
          JString m \<Rightarrow> Inr (wallet_address w @ m)
        | _ \<Rightarrow> Inl (JsError ''invalid message'')),
      ethers_verifyMessage = (\<lambda>message signature. case (message, signature) of
          (JString m, JString sg) \<Rightarrow>
            if 42 \<le> length sg \<and> drop 42 sg = m then Inr (take 42 sg)
            else Inl (JsError ''invalid signature'')
        | _ \<Rightarrow> Inl (JsError ''invalid signature'')),
      SigningKey_computePublicKey = (\<lambda>k compressed.
          Inr ((if compressed then ''0x02'' else ''0x04'') @ drop 2 k)),
      bip39_generateMnemonic = (\<lambda>n. (Inr (''seed '' @ replicate n CHR ''a''), Suc n)),
      Mnemonic_fromPhrase = (\<lambda>p. Inr (utf8 p)),
      HDNodeWallet_fromMnemonic = (\<lambda>bs. Inr (example_wallet (''0x'' @ to_hex bs))),
      hdWallet_derivePath = (\<lambda>w path. Inr (example_wallet (wallet_privateKey w @ ''01''))),
      Wallet_createRandom = (\<lambda>n. (Inr (example_wallet (''0x'' @ replicate n CHR ''7'')), Suc n)),
      Ed25519Keypair_new = (\<lambda>n. (Inr (replicate 32 (of_nat n)), Suc n)),
      Ed25519Keypair_fromSecretKey = (\<lambda>bs.
          if length bs = 32 then Inr bs else Inl (JsError ''Wrong secretKey size'')),
      keypair_getPublicKey = (\<lambda>kp. Inr (rev kp)),
      keypair_getSecretKey = (\<lambda>kp. Inr (SecretBytes (kp @ rev kp))),
      publicKey_toSuiAddress = (\<lambda>pk. Inr (''0x'' @ to_hex pk)),
      publicKey_toBase64 = (\<lambda>pk. Inr (to_hex pk))\<rparr>"

definition server0 :: "(nat, byte list) server" where
  "server0 = \<lparr>world = 0, calls = [], console = []\<rparr>"

definition example_key :: string where
  "example_key = ''0x1111111111111111111111111111111111111111111111111111111111111111''"

text \<open>The Bech32 text \<^verbatim>\<open>suiprivkey1...\<close> that encodes the flag byte 0 and 32 zero bytes, the
  secret of the keypair that the example provider generates first; and the example provider
  with a \<^verbatim>\<open>getSecretKey()\<close> that hands back this text instead of bytes.\<close>

definition example_bech32 :: string where
  "example_bech32 = ''suiprivkey1qqqqqqqqqqqqqqqqqqqqqqqqqqqqqqqqqqqqqqqqqqqqqqqqqqqqq509duq''"

definition bech32_caps :: "(nat, byte list) caps" where
  "bech32_caps =
     example_caps\<lparr>keypair_getSecretKey := \<lambda>kp. Inr (SecretString example_bech32)\<rparr>"

text \<open>A request to \<^verbatim>\<open>/sign\<close> with the example key, and the request to \<^verbatim>\<open>/verify\<close> made
  from its outcome.\<close>

abbreviation example_sign_outcome :: "response \<times> (nat, byte list) server" where
  "example_sign_outcome \<equiv>
     sign_handler example_caps
       [''key'' \<mapsto> JString example_key, ''message'' \<mapsto> JString ''hi''] server0"

abbreviation example_verify_outcome :: "response \<times> (nat, byte list) server" where
  "example_verify_outcome \<equiv>
     verify_handler example_caps
       [''signature'' \<mapsto> jget (jget (body (fst example_sign_outcome)) ''data'') ''signature'',
        ''message'' \<mapsto> JString ''hi'']
       (snd example_sign_outcome)"

text \<open>Two keys used at concrete requests: 64 ones with \<open>0x\<close> standing in the middle, and
  64 characters that are not hex digits.\<close>

definition inner_0x_key :: string where
  "inner_0x_key = ''111111111111111111111111111111110x11111111111111111111111111111111''"

definition non_hex_key :: string where
  "non_hex_key = ''zzzzzzzzzzzzzzzzzzzzzzzzzzzzzzzzzzzzzzzzzzzzzzzzzzzzzzzzzzzzzzzz''"

section \<open>Basic facts\<close>

lemmas comp_defs = ret_def throw_def bnd_def call_def call_random_def try_catch_def
  log_and_500_def console_error_def

lemma error_response_simps:
  "status (error_response n msg) = n"
  "jget (body (error_response n msg)) ''success'' = JBool False"
  "jget (body (error_response n msg)) ''error'' = JString msg"
  "jget (body (error_response n msg)) ''data'' = JUndefined"
  by (simp_all add: error_response_def)

lemma success_response_simps:
  "status (success_response d) = 200"
  "jget (body (success_response d)) ''success'' = JBool True"
  "jget (body (success_response d)) ''data'' = JObject d"
  by (simp_all add: success_response_def)

lemma param_absent: "q name = None \<Longrightarrow> param q name = JUndefined"
  by (simp add: param_def)

lemma param_upd:
  "param (q(name \<mapsto> v)) name = v"
  "param (q(name := None)) name = JUndefined"
  by (simp_all add: param_def)

subsection \<open>The runtime primitives\<close>

lemma value_examples:
  "\<not> truthy JUndefined" "\<not> truthy (JString [])" "truthy (JString ''0'')"
  "truthy (JArray [])" "truthy (JObject [])"
  "param [''key'' \<mapsto> JString ''a''] ''key'' = JString ''a''"
  "param [''key'' \<mapsto> JString ''a''] ''message'' = JUndefined"
  "jget (JObject [(''a'', JBool True), (''b'', JString ''x'')]) ''b'' = JString ''x''"
  "jget (JObject [(''a'', JBool True)]) ''b'' = JUndefined"
  "str_includes ''ab0xcd'' ''0x''" "\<not> str_includes ''abxcd0'' ''0x''"
  "strip_0x_prefix ''0xab0x'' = ''ab0x''" "strip_0x_prefix ''ab0x'' = ''ab0x''"
  by (simp_all add: param_def startsWith_def strip_0x_prefix_def)

lemma str_replace_no_occurrence: "\<not> str_includes pk ''0x'' \<Longrightarrow> str_replace pk ''0x'' [] = pk"
  by (induction pk) (auto simp: startsWith_def)

lemma str_replace_leading: "startsWith pk ''0x'' \<Longrightarrow> str_replace pk ''0x'' [] = drop 2 pk"
  by (cases pk) (auto simp: startsWith_def)

lemma str_replace_strip:
  "startsWith pk ''0x'' \<or> \<not> str_includes pk ''0x'' \<Longrightarrow> str_replace pk ''0x'' [] = strip_0x_prefix pk"
  using str_replace_no_occurrence [of pk] str_replace_leading [of pk]
  by (auto simp: strip_0x_prefix_def)

lemma runtime_examples:
  "str_replace ''ab0xcd0xef'' ''0x'' [] = ''abcd0xef''"
  "str_replace ''0x0xab'' ''0x'' [] = ''0xab''"
  "str_replace ''abc'' ''0x'' [] = ''abc''"
  "startsWith ''0xab'' ''0x''" "\<not> startsWith ''a0x'' ''0x''" "\<not> startsWith ''0'' ''0x''"
  "hex_decode ''0aFf10'' = [0x0A, 0xFF, 0x10]"
  "hex_decode ''12zz34'' = [0x12]"
  "hex_decode ''123'' = [0x12]"
  "to_hex [0x0A, 0xFF, 0x10] = ''0aff10''"
  "utf8 ''sui'' = [0x73, 0x75, 0x69]"
  "utf8 [CHR 0xE9] = [0xC3, 0xA9]"
  "Buffer_from (slice0 (SecretString ''suiprivkey'') 3) = [0x73, 0x75, 0x69]"
  "Buffer_from (slice0 (SecretBytes [1, 2, 3, 4]) 3) = [1, 2, 3]"
  by (simp_all add: startsWith_def unhex_def to_hex_def hex_byte_def hex_digit_def utf8_def
      utf8_char_def)

lemma utf8_ascii:
  "list_all (\<lambda>c. of_char c < (128 :: nat)) str \<Longrightarrow> utf8 str = map (\<lambda>c. of_nat (of_char c)) str"
  by (induction str) (simp_all add: utf8_def utf8_char_def)

subsection \<open>Hex encoding\<close>

lemma hex_digit_lowercase: "hex_digit n \<in> set ''0123456789abcdef''"
  unfolding hex_digit_def by (rule nth_mem) simp

lemma unhex_hex_digit_upto: "list_all (\<lambda>n. unhex (hex_digit n) = Some n) [0..<16]"
  by code_simp

lemma unhex_hex_digit: "n < 16 \<Longrightarrow> unhex (hex_digit n) = Some n"
  using unhex_hex_digit_upto by (simp add: list_all_iff)

lemma length_to_hex: "length (to_hex bs) = 2 * length bs"
  by (induction bs) (simp_all add: to_hex_def hex_byte_def)

lemma to_hex_subset: "(\<And>n. hex_digit n \<in> S) \<Longrightarrow> set (to_hex bs) \<subseteq> S"
  by (induction bs) (simp_all add: to_hex_def hex_byte_def)

lemma to_hex_lowercase: "set (to_hex bs) \<subseteq> set ''0123456789abcdef''"
  by (rule to_hex_subset) (rule hex_digit_lowercase)

text \<open>Decoding undoes encoding: the key that \<^verbatim>\<open>/generate-sui\<close> prints is read back by
  \<^verbatim>\<open>/sui-key-to-address\<close> as the same bytes.\<close>

lemma hex_decode_to_hex: "hex_decode (to_hex bs) = bs"
proof (induction bs)
  case Nil
  show ?case by (simp add: to_hex_def)
next
  case (Cons b bs)
  have d: "unat b div 16 < 16"
    using unsigned_less [of b, where ?'a = nat] by (simp add: less_mult_imp_div_less)
  have m: "unat b mod 16 < 16" by simp
  from Cons show ?case
    by (simp add: to_hex_def hex_byte_def unhex_hex_digit [OF d] unhex_hex_digit [OF m]
        del: of_nat_add of_nat_mult)
qed

subsection \<open>Key normalisation\<close>

lemma eth_clean_not_empty_66:
  "length (if startsWith pk ''0x'' then pk else ''0x'' @ pk) = 66 \<Longrightarrow> pk \<noteq> []"
  by (auto simp: startsWith_def)

subsection \<open>Outcomes in terms of the library's answers\<close>

lemma sign_outcome:
  assumes "truthy (param q ''key'')" and "truthy (param q ''message'')"
  shows "sign_handler C q s =
    (case ethers_Wallet C (param q ''key'') of
       Inl e \<Rightarrow>
         (error_response 500 ''Error signing message. Please ensure the private key is valid.'',
          s\<lparr>calls := calls s @ [Call_Wallet (param q ''key'')],
            console := console s @ [(''Error signing message:'', e)]\<rparr>)
     | Inr w \<Rightarrow>
         (case wallet_signMessage C w (param q ''message'') of
            Inl e \<Rightarrow>
              (error_response 500
                 ''Error signing message. Please ensure the private key is valid.'',
               s\<lparr>calls := calls s @ [Call_Wallet (param q ''key''),
                                       Call_signMessage w (param q ''message'')],
                 console := console s @ [(''Error signing message:'', e)]\<rparr>)
          | Inr sg \<Rightarrow>
              (success_response
                 [(''address'', JString (wallet_address w)),
                  (''message'', param q ''message''),
                  (''signature'', JString sg)],
               s\<lparr>calls := calls s @ [Call_Wallet (param q ''key''),
                                       Call_signMessage w (param q ''message'')]\<rparr>)))"
  using assms
  by (simp add: sign_handler_def sign_try_def comp_defs Let_def split: sum.splits)


lemma eth_key_to_wallet_outcome:
  assumes "param q ''privateKey'' = JString pk"
    and "clean = (if startsWith pk ''0x'' then pk else ''0x'' @ pk)"
  shows "eth_key_to_wallet_handler C q s =
    (if pk = [] then (error_response 400 ''Private key is required'', s)
     else if length clean \<noteq> 66
     then (error_response 400
        ''Invalid private key format. Expected 64 hex characters (with or without 0x prefix).'',
        s)
     else (case ethers_Wallet C (JString clean) of
       Inl e \<Rightarrow>
         (error_response 500
            ''Error converting ETH private key. Please ensure the private key is valid.'',
          s\<lparr>calls := calls s @ [Call_Wallet (JString clean)],
            console := console s @ [(''Error converting ETH private key:'', e)]\<rparr>)
     | Inr w \<Rightarrow>
         (case SigningKey_computePublicKey C clean True of
            Inl e \<Rightarrow>
              (error_response 500
                 ''Error converting ETH private key. Please ensure the private key is valid.'',
               s\<lparr>calls := calls s @ [Call_Wallet (JString clean),
                                       Call_computePublicKey clean True],
                 console := console s @ [(''Error converting ETH private key:'', e)]\<rparr>)
          | Inr compressed \<Rightarrow>
              (success_response
                 [(''address'', JString (wallet_address w)),
                  (''privateKey'', JString clean),
                  (''publicKey'', wallet_publicKey w),
                  (''compressedPublicKey'', JString compressed)],
               s\<lparr>calls := calls s @ [Call_Wallet (JString clean),
                                       Call_computePublicKey clean True]\<rparr>))))"
  using assms
  by (simp add: eth_key_to_wallet_handler_def eth_key_to_wallet_try_def comp_defs Let_def
      split: sum.splits)

lemma sui_key_to_address_outcome:
  assumes "param q ''privateKey'' = JString pk"
    and "clean = str_replace pk ''0x'' []"
  shows "sui_key_to_address_handler C q s =
    (if pk = [] then (error_response 400 ''Private key is required'', s)
     else if length clean \<noteq> 64
     then (error_response 400
        ''Invalid private key length. Expected 64 hex characters for Ed25519.'', s)
     else try_catch
       (bnd (call (Call_fromSecretKey (hex_decode clean))
               (Ed25519Keypair_fromSecretKey C (hex_decode clean))) (\<lambda>keypair.
        bnd (call (Call_getPublicKey keypair) (keypair_getPublicKey C keypair)) (\<lambda>pk1.
        bnd (call (Call_toSuiAddress pk1) (publicKey_toSuiAddress C pk1)) (\<lambda>address.
        bnd (call (Call_getPublicKey keypair) (keypair_getPublicKey C keypair)) (\<lambda>pk2.
        bnd (call (Call_toBase64 pk2) (publicKey_toBase64 C pk2)) (\<lambda>publicKey.
        ret (success_response
          [(''address'', JString address),
           (''publicKey'', JString publicKey),
           (''privateKey'', JString clean),
           (''keyType'', JString ''Ed25519'')])))))))
       (log_and_500 ''Error converting SUI private key:''
          ''Error converting SUI private key. Please ensure the private key is valid.'') s)"
  using assms
  by (simp add: sui_key_to_address_handler_def sui_key_to_address_try_def ret_def try_catch_def
      Let_def)


lemma sui_key_to_address_success:
  assumes "param q ''privateKey'' = JString pk"
    and "clean = str_replace pk ''0x'' []" and "length clean = 64"
    and "Ed25519Keypair_fromSecretKey C (hex_decode clean) = Inr kp"
    and "keypair_getPublicKey C kp = Inr pub"
    and "publicKey_toSuiAddress C pub = Inr a"
    and "publicKey_toBase64 C pub = Inr b"
  shows "fst (sui_key_to_address_handler C q s)
       = success_response
           [(''address'', JString a), (''publicKey'', JString b),
            (''privateKey'', JString clean), (''keyType'', JString ''Ed25519'')]"
proof -
  have ne: "pk \<noteq> []" using assms(2,3) by auto
  show ?thesis
    unfolding sui_key_to_address_outcome [OF assms(1,2)]
    by (simp add: ne assms(3-7) comp_defs)
qed




text \<open>A key that is not a string (a repeated \<^verbatim>\<open>privateKey\<close> parameter arrives as an array)
  has no \<^verbatim>\<open>startsWith\<close> and no \<^verbatim>\<open>replace\<close>: both key handlers answer 500 without a
  library call, and the type error is logged.\<close>

lemma non_string_key_type_error:
  assumes "truthy (param q ''privateKey'')" and "\<forall>pk. param q ''privateKey'' \<noteq> JString pk"
  shows "eth_key_to_wallet_handler C q s
       = (error_response 500
            ''Error converting ETH private key. Please ensure the private key is valid.'',
          s\<lparr>console := console s @ [(''Error converting ETH private key:'',
               JsError ''privateKey.startsWith is not a function'')]\<rparr>)"
    and "sui_key_to_address_handler C q s
       = (error_response 500
            ''Error converting SUI private key. Please ensure the private key is valid.'',
          s\<lparr>console := console s @ [(''Error converting SUI private key:'',
               JsError ''privateKey.replace is not a function'')]\<rparr>)"
  using assms
  by (cases "param q ''privateKey''";
      simp add: eth_key_to_wallet_handler_def eth_key_to_wallet_try_def
        sui_key_to_address_handler_def sui_key_to_address_try_def comp_defs)+

lemma main_sign_missing:
  assumes "\<not> truthy (param q ''key'') \<or> \<not> truthy (param q ''message'')"
  shows "main_sign_handler C q s
     = (\<lparr>status = 400, body = JObject [(''error'', JString ''Missing key or message'')]\<rparr>, s)"
  using assms by (auto simp: main_sign_handler_def Let_def)

lemma generate_sui_success:
  assumes "Ed25519Keypair_new C (world s) = (Inr kp, wa)"
    and "keypair_getPublicKey C kp = Inr pub"
    and "publicKey_toSuiAddress C pub = Inr a"
    and "keypair_getSecretKey C kp = Inr sec"
    and "publicKey_toBase64 C pub = Inr b"
  shows "generate_sui_handler C q s
     = (success_response
          [(''address'', JString a),
           (''privateKey'', JString (to_hex (Buffer_from (slice0 sec 32)))),
           (''publicKey'', JString b),
           (''keyType'', JString ''Ed25519'')],
        s\<lparr>world := wa,
          calls := calls s @ [Call_Ed25519Keypair_new, Call_getPublicKey kp,
            Call_toSuiAddress pub, Call_getSecretKey kp, Call_getPublicKey kp,
            Call_toBase64 pub]\<rparr>)"
  using assms
  by (simp add: generate_sui_handler_def generate_sui_try_def comp_defs)

lemma generate_eth_success:
  assumes "bip39_generateMnemonic C (world s) = (Inr mn, wa)"
    and "Mnemonic_fromPhrase C mn = Inr p"
    and "HDNodeWallet_fromMnemonic C p = Inr node"
    and "hdWallet_derivePath C node ''m/44'/60'/0'/0/0'' = Inr wl"
  shows "snd (generate_eth_handler C q s)
     = s\<lparr>world := wa,
         calls := calls s @ [Call_generateMnemonic, Call_fromPhrase mn, Call_fromMnemonic p,
           Call_derivePath node ''m/44'/60'/0'/0/0'']\<rparr>"
  using assms
  by (simp add: generate_eth_handler_def generate_eth_try_def derivationPath_def comp_defs)

lemma generate_eth_fallback_success:
  assumes "bip39_generateMnemonic C (world s) = (Inl e, wa)"
    and "bip39_generateMnemonic C wa = (Inr mn, wb)"
    and "Wallet_createRandom C wb = (Inr rw, wc)"
  shows "snd (generate_eth_handler C q s)
     = s\<lparr>world := wc,
         calls := calls s @ [Call_generateMnemonic, Call_generateMnemonic, Call_createRandom],
         console := console s @ [(''Error generating ETH wallet:'', e)]\<rparr>"
  using assms
  by (simp add: generate_eth_handler_def generate_eth_try_def generate_eth_fallback_try_def
      comp_defs)

subsection \<open>Failing library calls\<close>









subsection \<open>Every 500 response is the fixed one\<close>











section \<open>Signing and then verifying\<close>

text \<open>
  Claim C1 says that signing any string \<open>m\<close> with a valid key through \<^verbatim>\<open>/sign\<close> and handing
  the signature and \<open>m\<close> to \<^verbatim>\<open>/verify\<close> recovers the signer's address. For the empty
  message this fails before the library is reached: \<^verbatim>\<open>!message\<close> holds for the empty
  string, so \<^verbatim>\<open>/sign\<close> answers 400 and returns no signature, and \<^verbatim>\<open>/verify\<close> rejects the
  empty message in the same way, although the provider would sign it and recover the
  address from the signature.
\<close>

theorem sign_verify_empty_message_counterexample:
  "ethers_Wallet example_caps (JString example_key) = Inr (example_wallet example_key)
   \<and> wallet_signMessage example_caps (example_wallet example_key) (JString [])
       = Inr (wallet_address (example_wallet example_key))
   \<and> ethers_verifyMessage example_caps (JString [])
         (JString (wallet_address (example_wallet example_key)))
       = Inr (wallet_address (example_wallet example_key))
   \<and> fst (sign_handler example_caps
         [''key'' \<mapsto> JString example_key, ''message'' \<mapsto> JString []] server0)
       = error_response 400 ''Private key and message are required''
   \<and> jget (jget (body (fst (sign_handler example_caps
         [''key'' \<mapsto> JString example_key, ''message'' \<mapsto> JString []] server0))) ''data'')
         ''signature'' = JUndefined
   \<and> fst (verify_handler example_caps
         [''signature'' \<mapsto> JString (wallet_address (example_wallet example_key)),
          ''message'' \<mapsto> JString []] server0)
       = error_response 400 ''Message and signature are required''"
  by (simp add: sign_handler_def sign_try_def verify_handler_def verify_try_def comp_defs
      param_def example_caps_def example_wallet_def example_key_def startsWith_def is_hex_def
      unhex_def error_response_simps Let_def)

text \<open>
  Claim C1, amended to non-empty messages. Let the library accept the key \<open>k\<close> as wallet
  \<open>w\<close>, sign the non-empty message \<open>m\<close> as \<open>sg\<close>, and recover the address of \<open>w\<close> from
  \<open>m\<close> and \<open>sg\<close> (the recovery property of the signature scheme, which is the
  library's); a valid key and a signature are not empty strings. Then \<^verbatim>\<open>/sign\<close> succeeds
  with that signature and the address of \<open>w\<close>, and \<^verbatim>\<open>/verify\<close>, called with the signature
  field of that response and the same message, succeeds with \<^verbatim>\<open>recoveredAddress\<close> equal to
  the \<^verbatim>\<open>address\<close> that \<^verbatim>\<open>/sign\<close> returned.
\<close>

theorem sign_verify_roundtrip:
  assumes "ethers_Wallet C (JString k) = Inr w"
    and "wallet_signMessage C w (JString m) = Inr sg"
    and "ethers_verifyMessage C (JString m) (JString sg) = Inr (wallet_address w)"
    and "k \<noteq> []" and "m \<noteq> []" and "sg \<noteq> []"
    and "sign_handler C [''key'' \<mapsto> JString k, ''message'' \<mapsto> JString m] s = (r1, s1)"
    and "verify_handler C
           [''signature'' \<mapsto> jget (jget (body r1) ''data'') ''signature'',
            ''message'' \<mapsto> JString m] s1 = (r2, s2)"
  shows "status r1 = 200 \<and> status r2 = 200
     \<and> jget (jget (body r1) ''data'') ''signature'' = JString sg
     \<and> jget (jget (body r1) ''data'') ''address'' = JString (wallet_address w)
     \<and> jget (jget (body r2) ''data'') ''recoveredAddress''
          = jget (jget (body r1) ''data'') ''address''"
proof -
  have r1: "r1 = success_response
      [(''address'', JString (wallet_address w)), (''message'', JString m),
       (''signature'', JString sg)]"
    using assms(1,2,4,5,7)
    by (auto simp: sign_handler_def sign_try_def comp_defs param_def Let_def)
  then have sig: "jget (jget (body r1) ''data'') ''signature'' = JString sg"
    by (simp add: success_response_simps)
  have r2: "r2 = success_response
      [(''recoveredAddress'', JString (wallet_address w)), (''message'', JString m),
       (''isValid'', JBool True)]"
    using assms(3,5,6,8) unfolding sig
    by (auto simp: verify_handler_def verify_try_def comp_defs param_def Let_def)
  show ?thesis
    using sig by (simp add: r1 r2 success_response_simps)
qed

theorem sign_verify_roundtrip_witness:
  "status (fst example_sign_outcome) = 200
   \<and> status (fst example_verify_outcome) = 200
   \<and> jget (jget (body (fst example_sign_outcome)) ''data'') ''signature''
       = JString (wallet_address (example_wallet example_key) @ ''hi'')
   \<and> jget (jget (body (fst example_sign_outcome)) ''data'') ''address''
       = JString (wallet_address (example_wallet example_key))
   \<and> jget (jget (body (fst example_verify_outcome)) ''data'') ''recoveredAddress''
       = jget (jget (body (fst example_sign_outcome)) ''data'') ''address''"
proof -
  have w: "ethers_Wallet example_caps (JString example_key) = Inr (example_wallet example_key)"
    by (simp add: example_caps_def example_key_def startsWith_def is_hex_def unhex_def)
  have sg: "wallet_signMessage example_caps (example_wallet example_key) (JString ''hi'')
      = Inr (wallet_address (example_wallet example_key) @ ''hi'')"
    by (simp add: example_caps_def)
  have v: "ethers_verifyMessage example_caps (JString ''hi'')
        (JString (wallet_address (example_wallet example_key) @ ''hi''))
      = Inr (wallet_address (example_wallet example_key))"
    by (simp add: example_caps_def example_wallet_def example_key_def)
  have k: "example_key \<noteq> []" by (simp add: example_key_def)
  have m: "''hi'' \<noteq> []" by simp
  have ne: "wallet_address (example_wallet example_key) @ ''hi'' \<noteq> []" by simp
  show ?thesis
    by (rule sign_verify_roundtrip [where s = server0, OF w sg v k m ne
          prod.collapse [symmetric] prod.collapse [symmetric]])
qed

section \<open>\<^verbatim>\<open>/verify\<close> never answers \<^verbatim>\<open>isValid: false\<close>\<close>

text \<open>
  Claim C2. For every request to \<^verbatim>\<open>/verify\<close>: a response with \<^verbatim>\<open>success: true\<close> has status
  200 and carries \<^verbatim>\<open>isValid: true\<close>; no response at all carries \<^verbatim>\<open>isValid: false\<close>; and
  when both parameters are given (non-empty) and the recovery of the library throws, for
  instance on a malformed signature, the handler still answers, with status 500 and
  \<^verbatim>\<open>success: false\<close>, and the thrown error goes to the console.
\<close>

theorem verify_handler_isValid:
  assumes "verify_handler C q s = (r, s')"
  shows "(jget (body r) ''success'' = JBool True \<longrightarrow>
            status r = 200 \<and> jget (jget (body r) ''data'') ''isValid'' = JBool True)
     \<and> jget (jget (body r) ''data'') ''isValid'' \<noteq> JBool False
     \<and> (truthy (param q ''message'') \<and> truthy (param q ''signature'')
         \<and> ethers_verifyMessage C (param q ''message'') (param q ''signature'') = Inl e \<longrightarrow>
           status r = 500 \<and> jget (body r) ''success'' = JBool False
           \<and> jget (body r) ''error'' = JString ''Error verifying signature''
           \<and> console s' = console s @ [(''Error verifying signature:'', e)])"
  using assms
  by (auto simp: verify_handler_def verify_try_def comp_defs error_response_simps
      success_response_simps Let_def split: if_splits sum.splits)

theorem verify_handler_isValid_witness:
  "status (fst (verify_handler example_caps
      [''signature'' \<mapsto> JString ''zz'', ''message'' \<mapsto> JString ''hi''] server0)) = 500
   \<and> jget (body (fst (verify_handler example_caps
      [''signature'' \<mapsto> JString ''zz'', ''message'' \<mapsto> JString ''hi''] server0))) ''success''
       = JBool False
   \<and> console (snd (verify_handler example_caps
      [''signature'' \<mapsto> JString ''zz'', ''message'' \<mapsto> JString ''hi''] server0))
       = [(''Error verifying signature:'', JsError ''invalid signature'')]"
  using verify_handler_isValid [where C = example_caps
      and q = "[''signature'' \<mapsto> JString ''zz'', ''message'' \<mapsto> JString ''hi'']"
      and s = server0 and e = "JsError ''invalid signature''",
      OF prod.collapse [symmetric]]
  by (simp add: param_def example_caps_def server0_def)

section \<open>The three outcomes of \<^verbatim>\<open>/generate-eth\<close>\<close>

text \<open>The wallet of the fallback does not depend on the mnemonic printed with it: a
  provider that words the mnemonic differently, and is otherwise the same, gives the same
  wallet.\<close>

lemma fallback_wallet_independent_of_mnemonic:
  assumes "bip39_generateMnemonic C (world s) = (Inr mn, w1)"
    and "bip39_generateMnemonic C' (world s) = (Inr mn', w1)"
    and "Wallet_createRandom C' = Wallet_createRandom C"
    and "generate_eth_fallback_try C s = (Inr r, t)"
  shows "\<exists>r' t'. generate_eth_fallback_try C' s = (Inr r', t')
     \<and> jget (jget (body r') ''data'') ''address'' = jget (jget (body r) ''data'') ''address''
     \<and> jget (jget (body r') ''data'') ''privateKey''
          = jget (jget (body r) ''data'') ''privateKey''
     \<and> jget (jget (body r') ''data'') ''publicKey''
          = jget (jget (body r) ''data'') ''publicKey''
     \<and> jget (jget (body r) ''data'') ''mnemonic'' = JString mn
     \<and> jget (jget (body r') ''data'') ''mnemonic'' = JString mn'"
  using assms
  by (auto simp: generate_eth_fallback_try_def comp_defs success_response_simps
      split: sum.splits prod.splits)



section \<open>The private key printed by \<^verbatim>\<open>/generate-sui\<close>\<close>

text \<open>Were \<^verbatim>\<open>getSecretKey()\<close> to hand back an encoded string, the field would be the hex of
  the UTF-8 bytes of its first 32 characters.\<close>

lemma generate_sui_privateKey_of_string:
  assumes "generate_sui_handler C q s = (r, s')"
    and "jget (body r) ''success'' = JBool True"
    and "Ed25519Keypair_new C (world s) = (Inr kp, w1)"
    and "keypair_getSecretKey C kp = Inr (SecretString str)"
  shows "jget (jget (body r) ''data'') ''privateKey'' = JString (to_hex (utf8 (take 32 str)))"
  using assms
  by (auto simp: generate_sui_handler_def generate_sui_try_def comp_defs
      error_response_simps success_response_simps Let_def split: sum.splits)

text \<open>Were \<^verbatim>\<open>getSecretKey()\<close> to hand back the secret key as a byte array of at least 32
  bytes, raw private key first, the field would be the hex encoding of these 32 bytes.\<close>

lemma generate_sui_privateKey_of_bytes:
  assumes "generate_sui_handler C q s = (r, s')"
    and "jget (body r) ''success'' = JBool True"
    and "Ed25519Keypair_new C (world s) = (Inr kp, w1)"
    and "keypair_getSecretKey C kp = Inr (SecretBytes sk)"
    and "32 \<le> length sk"
  shows "jget (jget (body r) ''data'') ''privateKey'' = JString (to_hex (take 32 sk))
     \<and> length (to_hex (take 32 sk)) = 64
     \<and> set (to_hex (take 32 sk)) \<subseteq> set ''0123456789abcdef''
     \<and> hex_decode (to_hex (take 32 sk)) = take 32 sk
     \<and> (\<exists>pk a b. keypair_getPublicKey C kp = Inr pk
           \<and> publicKey_toSuiAddress C pk = Inr a \<and> publicKey_toBase64 C pk = Inr b
           \<and> jget (jget (body r) ''data'') ''address'' = JString a
           \<and> jget (jget (body r) ''data'') ''publicKey'' = JString b)"
proof -
  have len: "length (to_hex (take 32 sk)) = 64"
    using assms(5) by (simp add: length_to_hex)
  have rest: "jget (jget (body r) ''data'') ''privateKey'' = JString (to_hex (take 32 sk))
     \<and> (\<exists>pk a b. keypair_getPublicKey C kp = Inr pk
           \<and> publicKey_toSuiAddress C pk = Inr a \<and> publicKey_toBase64 C pk = Inr b
           \<and> jget (jget (body r) ''data'') ''address'' = JString a
           \<and> jget (jget (body r) ''data'') ''publicKey'' = JString b)"
    using assms(1-4)
    by (auto simp: generate_sui_handler_def generate_sui_try_def comp_defs
        error_response_simps success_response_simps Let_def split: sum.splits)
  show ?thesis
    using len rest to_hex_lowercase [of "take 32 sk"] hex_decode_to_hex [of "take 32 sk"]
    by blast
qed

text \<open>
  Claim C4 says that the \<^verbatim>\<open>privateKey\<close> field of \<^verbatim>\<open>/generate-sui\<close> is the hex encoding of the
  raw 32-byte private key, and the handler's comment says the same
  (\<^verbatim>\<open>Convert private key to hex (32 bytes = 64 hex characters)\<close>). The keypair class that
  \<^verbatim>\<open>index.js\<close> imports from \<^verbatim>\<open>@mysten/sui/keypairs/ed25519\<close> hands back from
  \<^verbatim>\<open>getSecretKey()\<close> the Bech32 text \<^verbatim>\<open>suiprivkey1...\<close> and no bytes. For a secret key that is
  a text of at least 32 ASCII characters, the field of a successful response is the hex of
  the character codes of its first 32 characters: it has 64 characters, and it decodes to
  the beginning of the text, not to the private key.
\<close>

theorem generate_sui_privateKey_of_text:
  assumes "generate_sui_handler C q s = (r, s')"
    and "jget (body r) ''success'' = JBool True"
    and "Ed25519Keypair_new C (world s) = (Inr kp, wa)"
    and "keypair_getSecretKey C kp = Inr (SecretString str)"
    and "32 \<le> length str"
    and "list_all (\<lambda>c. of_char c < (128 :: nat)) str"
  shows "jget (jget (body r) ''data'') ''privateKey''
       = JString (to_hex (map (\<lambda>c. of_nat (of_char c)) (take 32 str)))
     \<and> length (to_hex (map (\<lambda>c. of_nat (of_char c) :: byte) (take 32 str))) = 64
     \<and> hex_decode (to_hex (map (\<lambda>c. of_nat (of_char c)) (take 32 str)))
       = map (\<lambda>c. of_nat (of_char c)) (take 32 str)"
proof -
  have ascii: "list_all (\<lambda>c. of_char c < (128 :: nat)) (take 32 str)"
    using assms(6) by (simp add: list_all_iff) (meson in_set_takeD)
  have field: "jget (jget (body r) ''data'') ''privateKey''
      = JString (to_hex (utf8 (take 32 str)))"
    using assms(1-4) by (rule generate_sui_privateKey_of_string)
  show ?thesis
    using field assms(5)
    by (simp add: utf8_ascii [OF ascii] length_to_hex hex_decode_to_hex)
qed

theorem generate_sui_privateKey_of_text_witness:
  "jget (jget (body (fst (generate_sui_handler bech32_caps Map.empty server0))) ''data'')
      ''privateKey''
     = JString ''737569707269766b657931717171717171717171717171717171717171717171''
   \<and> Ed25519Keypair_new bech32_caps (world server0) = (Inr (replicate 32 0), Suc 0)
   \<and> to_hex (replicate 32 (0 :: byte))
     = ''0000000000000000000000000000000000000000000000000000000000000000''"
proof -
  have ok: "jget (body (fst (generate_sui_handler bech32_caps Map.empty server0))) ''success''
      = JBool True"
    by code_simp
  have kp: "Ed25519Keypair_new bech32_caps (world server0) = (Inr (replicate 32 0), Suc 0)"
    by (simp add: bech32_caps_def example_caps_def server0_def)
  have sk: "keypair_getSecretKey bech32_caps (replicate 32 0) = Inr (SecretString example_bech32)"
    by (simp add: bech32_caps_def)
  have len: "32 \<le> length example_bech32"
    by (simp add: example_bech32_def)
  have ascii: "list_all (\<lambda>c. of_char c < (128 :: nat)) example_bech32"
    by code_simp
  have hex_of_text: "to_hex (map (\<lambda>c. of_nat (of_char c)) (take 32 example_bech32))
      = ''737569707269766b657931717171717171717171717171717171717171717171''"
    by code_simp
  have zeros: "to_hex (replicate 32 (0 :: byte))
      = ''0000000000000000000000000000000000000000000000000000000000000000''"
    by code_simp
  show ?thesis
    using generate_sui_privateKey_of_text [OF prod.collapse [symmetric] ok kp sk len ascii]
      kp zeros
    unfolding hex_of_text by simp
qed

section \<open>What is checked of a key before the library is called\<close>

text \<open>
  Claim C5 says that the length and the hex character set of a key are both checked before
  any library call. The handlers have no character check, and \<^verbatim>\<open>/sign\<close> has no length
  check either: \<^verbatim>\<open>/sign\<close> constructs a wallet from the two-character key \<open>zz\<close>,
  \<^verbatim>\<open>/eth-key-to-wallet\<close> constructs one from 64 letters \<open>z\<close> behind \<open>0x\<close>, and
  \<^verbatim>\<open>/sui-key-to-address\<close> builds a keypair from the bytes decoded from 64 letters \<open>z\<close>,
  which are none.
\<close>

theorem key_shape_unchecked_counterexample:
  "calls (snd (sign_handler example_caps
      [''key'' \<mapsto> JString ''zz'', ''message'' \<mapsto> JString ''hi''] server0))
     = [Call_Wallet (JString ''zz'')]
   \<and> length ''zz'' \<noteq> 66 \<and> \<not> is_hex ''zz''
   \<and> calls (snd (eth_key_to_wallet_handler example_caps
      [''privateKey'' \<mapsto> JString non_hex_key] server0))
     = [Call_Wallet (JString (''0x'' @ non_hex_key))]
   \<and> calls (snd (sui_key_to_address_handler example_caps
      [''privateKey'' \<mapsto> JString non_hex_key] server0))
     = [Call_fromSecretKey []]
   \<and> \<not> is_hex non_hex_key"
  by (simp add: sign_handler_def sign_try_def eth_key_to_wallet_handler_def
      eth_key_to_wallet_try_def sui_key_to_address_handler_def sui_key_to_address_try_def
      comp_defs param_def example_caps_def server0_def
      non_hex_key_def startsWith_def is_hex_def unhex_def Let_def)

lemma sign_calls:
  "(calls (snd (sign_handler C q s)) \<noteq> calls s)
     = (truthy (param q ''key'') \<and> truthy (param q ''message''))"
  by (auto simp: sign_handler_def sign_try_def comp_defs Let_def split: sum.splits)

lemma eth_calls:
  "(calls (snd (eth_key_to_wallet_handler C q s)) \<noteq> calls s)
     = (\<exists>pk. param q ''privateKey'' = JString pk
          \<and> length (if startsWith pk ''0x'' then pk else ''0x'' @ pk) = 66)"
proof (cases "param q ''privateKey''")
  case (JString pk)
  show ?thesis
  proof (cases "length (if startsWith pk ''0x'' then pk else ''0x'' @ pk) = 66")
    case True
    then have "pk \<noteq> []" by (rule eth_clean_not_empty_66)
    with True JString show ?thesis
      by (auto simp: eth_key_to_wallet_handler_def eth_key_to_wallet_try_def comp_defs Let_def
          split: sum.splits if_splits)
  next
    case False
    with JString show ?thesis
      by (auto simp: eth_key_to_wallet_handler_def eth_key_to_wallet_try_def comp_defs Let_def
          split: sum.splits if_splits)
  qed
qed (simp_all add: eth_key_to_wallet_handler_def eth_key_to_wallet_try_def comp_defs Let_def)

lemma strip_0x_prefix_not_empty_64: "length (strip_0x_prefix pk) = 64 \<Longrightarrow> pk \<noteq> []"
  by (auto simp: strip_0x_prefix_def startsWith_def)

lemma eth_key_checks:
  "param q ''privateKey'' = JString pk \<longrightarrow>
     (length (if startsWith pk ''0x'' then pk else ''0x'' @ pk) \<noteq> 66 \<longrightarrow>
        status (fst (eth_key_to_wallet_handler C q s)) = 400
        \<and> snd (eth_key_to_wallet_handler C q s) = s)
     \<and> (length (if startsWith pk ''0x'' then pk else ''0x'' @ pk) = 66
        \<and> ethers_Wallet C (JString (if startsWith pk ''0x'' then pk else ''0x'' @ pk)) = Inl e
        \<longrightarrow>
        eth_key_to_wallet_handler C q s
          = (error_response 500
               ''Error converting ETH private key. Please ensure the private key is valid.'',
             s\<lparr>calls := calls s
                  @ [Call_Wallet (JString (if startsWith pk ''0x'' then pk else ''0x'' @ pk))],
               console := console s @ [(''Error converting ETH private key:'', e)]\<rparr>))"
proof (rule impI)
  assume p: "param q ''privateKey'' = JString pk"
  show "(length (if startsWith pk ''0x'' then pk else ''0x'' @ pk) \<noteq> 66 \<longrightarrow>
        status (fst (eth_key_to_wallet_handler C q s)) = 400
        \<and> snd (eth_key_to_wallet_handler C q s) = s)
     \<and> (length (if startsWith pk ''0x'' then pk else ''0x'' @ pk) = 66
        \<and> ethers_Wallet C (JString (if startsWith pk ''0x'' then pk else ''0x'' @ pk)) = Inl e
        \<longrightarrow>
        eth_key_to_wallet_handler C q s
          = (error_response 500
               ''Error converting ETH private key. Please ensure the private key is valid.'',
             s\<lparr>calls := calls s
                  @ [Call_Wallet (JString (if startsWith pk ''0x'' then pk else ''0x'' @ pk))],
               console := console s @ [(''Error converting ETH private key:'', e)]\<rparr>))"
    unfolding eth_key_to_wallet_outcome [OF p refl]
    using eth_clean_not_empty_66 [of pk]
    by (auto simp: error_response_simps)
qed

lemma sui_key_checks:
  "param q ''privateKey'' = JString pk \<and> (startsWith pk ''0x'' \<or> \<not> str_includes pk ''0x'') \<longrightarrow>
     (length (strip_0x_prefix pk) \<noteq> 64 \<longrightarrow>
        status (fst (sui_key_to_address_handler C q s)) = 400
        \<and> snd (sui_key_to_address_handler C q s) = s)
     \<and> (length (strip_0x_prefix pk) = 64
        \<and> Ed25519Keypair_fromSecretKey C (hex_decode (strip_0x_prefix pk)) = Inl e \<longrightarrow>
        sui_key_to_address_handler C q s
          = (error_response 500
               ''Error converting SUI private key. Please ensure the private key is valid.'',
             s\<lparr>calls := calls s @ [Call_fromSecretKey (hex_decode (strip_0x_prefix pk))],
               console := console s @ [(''Error converting SUI private key:'', e)]\<rparr>))"
proof (rule impI)
  assume a: "param q ''privateKey'' = JString pk
    \<and> (startsWith pk ''0x'' \<or> \<not> str_includes pk ''0x'')"
  then have p: "param q ''privateKey'' = JString pk" by simp
  from a have c: "strip_0x_prefix pk = str_replace pk ''0x'' []"
    using str_replace_strip [of pk] by simp
  show "(length (strip_0x_prefix pk) \<noteq> 64 \<longrightarrow>
        status (fst (sui_key_to_address_handler C q s)) = 400
        \<and> snd (sui_key_to_address_handler C q s) = s)
     \<and> (length (strip_0x_prefix pk) = 64
        \<and> Ed25519Keypair_fromSecretKey C (hex_decode (strip_0x_prefix pk)) = Inl e \<longrightarrow>
        sui_key_to_address_handler C q s
          = (error_response 500
               ''Error converting SUI private key. Please ensure the private key is valid.'',
             s\<lparr>calls := calls s @ [Call_fromSecretKey (hex_decode (strip_0x_prefix pk))],
               console := console s @ [(''Error converting SUI private key:'', e)]\<rparr>))"
    unfolding sui_key_to_address_outcome [OF p c]
    using strip_0x_prefix_not_empty_64 [of pk]
    by (auto simp: error_response_simps comp_defs)
qed

lemma sign_key_checks:
  "(\<not> truthy (param q ''key'') \<or> \<not> truthy (param q ''message'') \<longrightarrow>
        status (fst (sign_handler C q s)) = 400 \<and> snd (sign_handler C q s) = s)
   \<and> (truthy (param q ''key'') \<and> truthy (param q ''message'')
        \<and> ethers_Wallet C (param q ''key'') = Inl e \<longrightarrow>
        sign_handler C q s
          = (error_response 500
               ''Error signing message. Please ensure the private key is valid.'',
             s\<lparr>calls := calls s @ [Call_Wallet (param q ''key'')],
               console := console s @ [(''Error signing message:'', e)]\<rparr>))"
proof (rule conjI; rule impI)
  assume "\<not> truthy (param q ''key'') \<or> \<not> truthy (param q ''message'')"
  then show "status (fst (sign_handler C q s)) = 400 \<and> snd (sign_handler C q s) = s"
    by (auto simp: sign_handler_def sign_try_def comp_defs Let_def error_response_simps)
next
  assume "truthy (param q ''key'') \<and> truthy (param q ''message'')
        \<and> ethers_Wallet C (param q ''key'') = Inl e"
  then show "sign_handler C q s
          = (error_response 500
               ''Error signing message. Please ensure the private key is valid.'',
             s\<lparr>calls := calls s @ [Call_Wallet (param q ''key'')],
               console := console s @ [(''Error signing message:'', e)]\<rparr>)"
    by (simp add: sign_outcome)
qed

lemma non_string_key_checks:
  "truthy (param q ''privateKey'') \<and> (\<forall>pk. param q ''privateKey'' \<noteq> JString pk) \<longrightarrow>
     status (fst (eth_key_to_wallet_handler C q s)) = 500
     \<and> calls (snd (eth_key_to_wallet_handler C q s)) = calls s
     \<and> status (fst (sui_key_to_address_handler C q s)) = 500
     \<and> calls (snd (sui_key_to_address_handler C q s)) = calls s"
proof (rule impI)
  assume a: "truthy (param q ''privateKey'') \<and> (\<forall>pk. param q ''privateKey'' \<noteq> JString pk)"
  then have t: "truthy (param q ''privateKey'')"
    and n: "\<forall>pk. param q ''privateKey'' \<noteq> JString pk" by simp_all
  show "status (fst (eth_key_to_wallet_handler C q s)) = 500
     \<and> calls (snd (eth_key_to_wallet_handler C q s)) = calls s
     \<and> status (fst (sui_key_to_address_handler C q s)) = 500
     \<and> calls (snd (sui_key_to_address_handler C q s)) = calls s"
    by (simp add: non_string_key_type_error [OF t n] error_response_simps)
qed

text \<open>
  Claim C5, amended to what the handlers check before the library is called.
  \<^verbatim>\<open>/eth-key-to-wallet\<close>, for a string key: a normalised key that does not have 66
  characters is answered with 400 and nothing else happens; one of 66 characters is handed
  to the wallet constructor whatever its characters are, and when the constructor rejects
  it the answer is the fixed 500 response, the rejection is logged and the constructor was
  the only call. \<^verbatim>\<open>/sui-key-to-address\<close>, for a string key that starts with \<open>0x\<close> or has no
  \<open>0x\<close> in it: the same with 64 characters after the removal of the leading \<open>0x\<close>, the
  bytes decoded from the key being handed to \<^verbatim>\<open>fromSecretKey\<close> (nothing is said of a key
  with \<open>0x\<close> elsewhere). \<^verbatim>\<open>/sign\<close>: a missing or empty key or message is answered with
  400 and nothing else happens; otherwise the key is handed to the wallet constructor as
  it is, and a rejection gives the fixed 500 response. A key that is present and not a
  string is answered with 500 by both key handlers without a library call. The trace of
  \<^verbatim>\<open>/eth-key-to-wallet\<close> and of \<^verbatim>\<open>/sign\<close> grows exactly when the length test, respectively
  the presence test, passes.
\<close>

theorem key_checks_before_capability_calls:
  "(param q ''privateKey'' = JString pk \<longrightarrow>
     (length (if startsWith pk ''0x'' then pk else ''0x'' @ pk) \<noteq> 66 \<longrightarrow>
        status (fst (eth_key_to_wallet_handler C q s)) = 400
        \<and> snd (eth_key_to_wallet_handler C q s) = s)
     \<and> (length (if startsWith pk ''0x'' then pk else ''0x'' @ pk) = 66
        \<and> ethers_Wallet C (JString (if startsWith pk ''0x'' then pk else ''0x'' @ pk)) = Inl e
        \<longrightarrow>
        eth_key_to_wallet_handler C q s
          = (error_response 500
               ''Error converting ETH private key. Please ensure the private key is valid.'',
             s\<lparr>calls := calls s
                  @ [Call_Wallet (JString (if startsWith pk ''0x'' then pk else ''0x'' @ pk))],
               console := console s @ [(''Error converting ETH private key:'', e)]\<rparr>)))
   \<and> (param q ''privateKey'' = JString pk \<and> (startsWith pk ''0x'' \<or> \<not> str_includes pk ''0x'') \<longrightarrow>
     (length (strip_0x_prefix pk) \<noteq> 64 \<longrightarrow>
        status (fst (sui_key_to_address_handler C q s)) = 400
        \<and> snd (sui_key_to_address_handler C q s) = s)
     \<and> (length (strip_0x_prefix pk) = 64
        \<and> Ed25519Keypair_fromSecretKey C (hex_decode (strip_0x_prefix pk)) = Inl e \<longrightarrow>
        sui_key_to_address_handler C q s
          = (error_response 500
               ''Error converting SUI private key. Please ensure the private key is valid.'',
             s\<lparr>calls := calls s @ [Call_fromSecretKey (hex_decode (strip_0x_prefix pk))],
               console := console s @ [(''Error converting SUI private key:'', e)]\<rparr>)))
   \<and> ((\<not> truthy (param q ''key'') \<or> \<not> truthy (param q ''message'') \<longrightarrow>
        status (fst (sign_handler C q s)) = 400 \<and> snd (sign_handler C q s) = s)
   \<and> (truthy (param q ''key'') \<and> truthy (param q ''message'')
        \<and> ethers_Wallet C (param q ''key'') = Inl e \<longrightarrow>
        sign_handler C q s
          = (error_response 500
               ''Error signing message. Please ensure the private key is valid.'',
             s\<lparr>calls := calls s @ [Call_Wallet (param q ''key'')],
               console := console s @ [(''Error signing message:'', e)]\<rparr>)))
   \<and> (truthy (param q ''privateKey'') \<and> (\<forall>pk. param q ''privateKey'' \<noteq> JString pk) \<longrightarrow>
     status (fst (eth_key_to_wallet_handler C q s)) = 500
     \<and> calls (snd (eth_key_to_wallet_handler C q s)) = calls s
     \<and> status (fst (sui_key_to_address_handler C q s)) = 500
     \<and> calls (snd (sui_key_to_address_handler C q s)) = calls s)
   \<and> ((calls (snd (eth_key_to_wallet_handler C q s)) \<noteq> calls s)
      = (\<exists>pk. param q ''privateKey'' = JString pk
           \<and> length (if startsWith pk ''0x'' then pk else ''0x'' @ pk) = 66))
   \<and> ((calls (snd (sign_handler C q s)) \<noteq> calls s)
      = (truthy (param q ''key'') \<and> truthy (param q ''message'')))"
  by (intro conjI eth_key_checks sui_key_checks sign_key_checks non_string_key_checks
      eth_calls sign_calls)

theorem key_checks_before_capability_calls_witness:
  "eth_key_to_wallet_handler example_caps [''privateKey'' \<mapsto> JString non_hex_key] server0
     = (error_response 500
          ''Error converting ETH private key. Please ensure the private key is valid.'',
        server0\<lparr>calls := calls server0 @ [Call_Wallet (JString (''0x'' @ non_hex_key))],
          console := console server0
            @ [(''Error converting ETH private key:'', JsError ''invalid private key'')]\<rparr>)
   \<and> sui_key_to_address_handler example_caps [''privateKey'' \<mapsto> JString non_hex_key] server0
     = (error_response 500
          ''Error converting SUI private key. Please ensure the private key is valid.'',
        server0\<lparr>calls := calls server0 @ [Call_fromSecretKey []],
          console := console server0
            @ [(''Error converting SUI private key:'', JsError ''Wrong secretKey size'')]\<rparr>)
   \<and> sign_handler example_caps
        [''key'' \<mapsto> JString ''zz'', ''message'' \<mapsto> JString ''hi''] server0
     = (error_response 500 ''Error signing message. Please ensure the private key is valid.'',
        server0\<lparr>calls := calls server0 @ [Call_Wallet (JString ''zz'')],
          console := console server0
            @ [(''Error signing message:'', JsError ''invalid private key'')]\<rparr>)"
proof -
  let ?k = "[''privateKey'' \<mapsto> JString non_hex_key]"
  let ?q = "[''key'' \<mapsto> JString ''zz'', ''message'' \<mapsto> JString ''hi'']"
  have p: "param ?k ''privateKey'' = JString non_hex_key"
    by (simp add: param_def)
  have clean: "(if startsWith non_hex_key ''0x'' then non_hex_key else ''0x'' @ non_hex_key)
      = ''0x'' @ non_hex_key"
    by (simp add: non_hex_key_def startsWith_def)
  have eth_rejects: "length (if startsWith non_hex_key ''0x'' then non_hex_key
        else ''0x'' @ non_hex_key) = 66
      \<and> ethers_Wallet example_caps
          (JString (if startsWith non_hex_key ''0x'' then non_hex_key else ''0x'' @ non_hex_key))
        = Inl (JsError ''invalid private key'')"
    by (simp add: example_caps_def non_hex_key_def startsWith_def is_hex_def unhex_def)
  have no_slip: "param ?k ''privateKey'' = JString non_hex_key
      \<and> (startsWith non_hex_key ''0x'' \<or> \<not> str_includes non_hex_key ''0x'')"
    by (simp add: param_def non_hex_key_def startsWith_def)
  have strip: "strip_0x_prefix non_hex_key = non_hex_key"
    by (simp add: strip_0x_prefix_def non_hex_key_def startsWith_def)
  have decoded: "hex_decode non_hex_key = []"
    by (simp add: non_hex_key_def unhex_def)
  have sui_rejects: "length (strip_0x_prefix non_hex_key) = 64
      \<and> Ed25519Keypair_fromSecretKey example_caps (hex_decode (strip_0x_prefix non_hex_key))
        = Inl (JsError ''Wrong secretKey size'')"
    unfolding strip decoded by (simp add: example_caps_def non_hex_key_def)
  have sign_rejects: "truthy (param ?q ''key'') \<and> truthy (param ?q ''message'')
      \<and> ethers_Wallet example_caps (param ?q ''key'') = Inl (JsError ''invalid private key'')"
    by (simp add: param_def example_caps_def)
  note at_eth = key_checks_before_capability_calls [where C = example_caps and q = ?k
      and pk = non_hex_key and s = server0 and e = "JsError ''invalid private key''"]
  note at_sui = key_checks_before_capability_calls [where C = example_caps and q = ?k
      and pk = non_hex_key and s = server0 and e = "JsError ''Wrong secretKey size''"]
  note at_sign = key_checks_before_capability_calls [where C = example_caps and q = ?q
      and s = server0 and e = "JsError ''invalid private key''"]
  note eth = at_eth [THEN conjunct1, THEN mp, OF p, THEN conjunct2, THEN mp, OF eth_rejects]
  note sui = at_sui [THEN conjunct2, THEN conjunct1, THEN mp, OF no_slip, THEN conjunct2,
      THEN mp, OF sui_rejects]
  note sign = at_sign [THEN conjunct2, THEN conjunct2, THEN conjunct1, THEN conjunct2,
      THEN mp, OF sign_rejects]
  show ?thesis
    using eth sui sign unfolding clean strip decoded by (simp add: param_def)
qed

section \<open>What a failure tells the caller\<close>




section \<open>Normalisation of the key in \<^verbatim>\<open>/eth-key-to-wallet\<close>\<close>






section \<open>The \<open>0x\<close> that \<^verbatim>\<open>/sui-key-to-address\<close> removes\<close>

text \<open>
  The handler answers 400 exactly when the key after \<^verbatim>\<open>replace('0x', '')\<close> does not have
  64 characters, and a leading \<open>0x\<close> is removed by it.
\<close>

lemma str_replace_prefix: "str_replace (''0x'' @ rest) ''0x'' [] = rest"
  by simp

lemma sui_key_to_address_status:
  assumes "q ''privateKey'' = Some (JString pk)"
    and "sui_key_to_address_handler C q s = (r, s')"
  shows "(status r = 400) = (length (str_replace pk ''0x'' []) \<noteq> 64)"
proof (cases "pk = []")
  case True
  with assms show ?thesis
    by (auto simp: sui_key_to_address_handler_def sui_key_to_address_try_def comp_defs param_def
        error_response_simps)
next
  case False
  with assms show ?thesis
    by (auto simp: sui_key_to_address_handler_def sui_key_to_address_try_def comp_defs param_def
        error_response_simps success_response_simps Let_def split: sum.splits if_splits)
qed

lemma inner_0x_key_facts:
  "length inner_0x_key = 66" "\<not> startsWith inner_0x_key ''0x''"
  "str_replace inner_0x_key ''0x'' [] = replicate 64 CHR ''1''"
  by (simp_all add: inner_0x_key_def startsWith_def eval_nat_numeral)

text \<open>
  Claim C8 says that only a leading \<open>0x\<close> is removed, and that the answer is 400 exactly
  when what remains does not have 64 characters. The key \<open>inner_0x_key\<close> has 66 characters
  and no leading \<open>0x\<close>, so by the claim it is rejected with 400. The handler removes the
  \<open>0x\<close> in its middle, finds 64 characters and builds the keypair from 32 bytes \<open>0x11\<close>:
  whatever the library does then, the status is not 400.
\<close>

theorem sui_key_to_address_inner_0x:
  "status (fst (sui_key_to_address_handler C [''privateKey'' \<mapsto> JString inner_0x_key] s)) \<noteq> 400
   \<and> take 1 (drop (length (calls s))
        (calls (snd (sui_key_to_address_handler C [''privateKey'' \<mapsto> JString inner_0x_key] s))))
      = [Call_fromSecretKey (replicate 32 17)]
   \<and> length inner_0x_key = 66 \<and> \<not> startsWith inner_0x_key ''0x''"
  by (auto simp: sui_key_to_address_handler_def sui_key_to_address_try_def comp_defs param_def
      error_response_simps success_response_simps Let_def inner_0x_key_def unhex_def
      startsWith_def eval_nat_numeral split: sum.splits)

theorem sui_key_to_address_inner_0x_witness:
  "status (fst (sui_key_to_address_handler example_caps
      [''privateKey'' \<mapsto> JString inner_0x_key] server0)) = 200
   \<and> jget (jget (body (fst (sui_key_to_address_handler example_caps
      [''privateKey'' \<mapsto> JString inner_0x_key] server0))) ''data'') ''privateKey''
      = JString ''1111111111111111111111111111111111111111111111111111111111111111''"
  using sui_key_to_address_inner_0x [of example_caps server0]
  by (simp add: sui_key_to_address_handler_def sui_key_to_address_try_def comp_defs param_def
      success_response_simps Let_def inner_0x_key_def unhex_def example_caps_def)

section \<open>Parameter validation of \<^verbatim>\<open>/sign\<close>\<close>

text \<open>
  Claim C9. When \<^verbatim>\<open>key\<close> or \<^verbatim>\<open>message\<close> is absent from the query, \<^verbatim>\<open>/sign\<close> answers
  400 with \<^verbatim>\<open>success: false\<close> and an error string, and leaves the server as it was: no
  library call, no log line. When both are given (and non-empty) and a library call fails,
  be it the wallet construction or the signing, the answer is 500 with
  \<^verbatim>\<open>success: false\<close>.
\<close>

theorem sign_handler_validation:
  "(q ''key'' = None \<or> q ''message'' = None \<longrightarrow>
      status (fst (sign_handler C q s)) = 400
      \<and> jget (body (fst (sign_handler C q s))) ''success'' = JBool False
      \<and> jget (body (fst (sign_handler C q s))) ''error'' =
            JString ''Private key and message are required''
      \<and> snd (sign_handler C q s) = s)
   \<and> (truthy (param q ''key'') \<and> truthy (param q ''message'')
       \<and> (ethers_Wallet C (param q ''key'') = Inl e
            \<or> ethers_Wallet C (param q ''key'') = Inr w
               \<and> wallet_signMessage C w (param q ''message'') = Inl e) \<longrightarrow>
      status (fst (sign_handler C q s)) = 500
      \<and> jget (body (fst (sign_handler C q s))) ''success'' = JBool False
      \<and> jget (body (fst (sign_handler C q s))) ''error'' =
            JString ''Error signing message. Please ensure the private key is valid.'')"
  by (auto simp: sign_handler_def sign_try_def comp_defs error_response_simps param_absent Let_def)

theorem sign_handler_validation_witness:
  "status (fst (sign_handler example_caps [''key'' \<mapsto> JString ''0x01''] server0)) = 400
   \<and> jget (body (fst (sign_handler example_caps [''key'' \<mapsto> JString ''0x01''] server0)))
        ''success'' = JBool False
   \<and> snd (sign_handler example_caps [''key'' \<mapsto> JString ''0x01''] server0) = server0
   \<and> status (fst (sign_handler example_caps
         [''key'' \<mapsto> JString ''0x01'', ''message'' \<mapsto> JString ''hi''] server0)) = 500
   \<and> jget (body (fst (sign_handler example_caps
         [''key'' \<mapsto> JString ''0x01'', ''message'' \<mapsto> JString ''hi''] server0)))
        ''success'' = JBool False"
  using sign_handler_validation [where q = "[''key'' \<mapsto> JString ''0x01'']"
      and C = example_caps and s = server0]
    sign_handler_validation [where q = "[''key'' \<mapsto> JString ''0x01'', ''message'' \<mapsto> JString ''hi'']"
      and C = example_caps and s = server0 and e = "JsError ''invalid private key''"]
  by (simp add: param_def example_caps_def)

section \<open>Empty parameters\<close>

text \<open>
  Claim C10. In \<^verbatim>\<open>/sign\<close>, \<^verbatim>\<open>/verify\<close>, \<^verbatim>\<open>/eth-key-to-wallet\<close> and
  \<^verbatim>\<open>/sui-key-to-address\<close>, a required parameter given as the empty string has the same
  effect as leaving it out: the whole outcome (response and server state) is equal, and it
  is the handler's 400 response with \<^verbatim>\<open>success: false\<close>, the server unchanged (so no
  library call was made).
\<close>

theorem empty_parameter_as_absent:
  "sign_handler C (q(''key'' \<mapsto> JString [])) s = sign_handler C (q(''key'' := None)) s
   \<and> sign_handler C (q(''message'' \<mapsto> JString [])) s = sign_handler C (q(''message'' := None)) s
   \<and> verify_handler C (q(''signature'' \<mapsto> JString [])) s
        = verify_handler C (q(''signature'' := None)) s
   \<and> verify_handler C (q(''message'' \<mapsto> JString [])) s
        = verify_handler C (q(''message'' := None)) s
   \<and> eth_key_to_wallet_handler C (q(''privateKey'' \<mapsto> JString [])) s
        = eth_key_to_wallet_handler C (q(''privateKey'' := None)) s
   \<and> sui_key_to_address_handler C (q(''privateKey'' \<mapsto> JString [])) s
        = sui_key_to_address_handler C (q(''privateKey'' := None)) s
   \<and> sign_handler C (q(''key'' \<mapsto> JString [])) s
        = (error_response 400 ''Private key and message are required'', s)
   \<and> sign_handler C (q(''message'' \<mapsto> JString [])) s
        = (error_response 400 ''Private key and message are required'', s)
   \<and> verify_handler C (q(''signature'' \<mapsto> JString [])) s
        = (error_response 400 ''Message and signature are required'', s)
   \<and> verify_handler C (q(''message'' \<mapsto> JString [])) s
        = (error_response 400 ''Message and signature are required'', s)
   \<and> eth_key_to_wallet_handler C (q(''privateKey'' \<mapsto> JString [])) s
        = (error_response 400 ''Private key is required'', s)
   \<and> sui_key_to_address_handler C (q(''privateKey'' \<mapsto> JString [])) s
        = (error_response 400 ''Private key is required'', s)
   \<and> (\<forall>msg. status (error_response 400 msg) = 400
          \<and> jget (body (error_response 400 msg)) ''success'' = JBool False)"
  by (simp add: sign_handler_def sign_try_def verify_handler_def verify_try_def
      eth_key_to_wallet_handler_def eth_key_to_wallet_try_def
      sui_key_to_address_handler_def sui_key_to_address_try_def comp_defs param_upd Let_def
      error_response_simps)

theorem empty_parameter_as_absent_witness:
  "sign_handler example_caps ([''message'' \<mapsto> JString ''hi''](''key'' \<mapsto> JString [])) server0
     = sign_handler example_caps ([''message'' \<mapsto> JString ''hi''](''key'' := None)) server0"
  by (rule conjunct1 [OF empty_parameter_as_absent])

end
